theory Spec2Isabelle
  imports Complex_Main "HOL-Library.Log_Nat"
begin

section \<open>The cart module (src/cart.ts)\<close>

text \<open>
  The module keeps two module-level variables, \<^verbatim>\<open>cart\<close> (an array of products) and
  \<^verbatim>\<open>discount\<close> (a number), and exports six functions that read and write them.
  The embedding passes these variables explicitly as a record; every exported function
  takes the variables before the call and returns what it returns (or throws) together
  with the variables after the call.
\<close>

subsection \<open>Numbers\<close>

text \<open>
  A JavaScript \<^verbatim>\<open>number\<close> is an IEEE-754 binary64 value: a finite value, one of the two
  infinities, or NaN. A finite value is carried as the real number it denotes. The sign
  of zero is not modelled: \<^verbatim>\<open>-0 === 0\<close> holds, and no function of the module divides by
  a number.
\<close>

datatype double = Fin real | PInf | NInf | NaN

text \<open>Rounding to the nearest integer, ties to the even one.\<close>

definition round_even :: "real \<Rightarrow> int" where
  "round_even y =
     (let f = \<lfloor>y\<rfloor>; d = y - of_int f
      in if d < 1 / 2 then f else if 1 / 2 < d then f + 1 else if even f then f else f + 1)"

text \<open>
  The exponent of the unit in the last place of the doubles around \<open>x\<close>: a double has 53
  significant bits, so for \<open>2 powi e \<le> \<bar>x\<bar>\<close> and \<open>\<bar>x\<bar> < 2 powi (e + 1)\<close> it is \<open>e - 52\<close>,
  and it is never less than \<open>-1074\<close> (the subnormal range). \<open>bitlen m\<close> is the number of
  binary digits of \<open>m\<close>, so \<open>bitlen \<lfloor>\<bar>x\<bar> * 2 ^ 1074\<rfloor>\<close> is \<open>e + 1075\<close>.
\<close>

definition ulp_exp :: "real \<Rightarrow> int" where
  "ulp_exp x = max (bitlen \<lfloor>\<bar>x\<bar> * 2 ^ 1074\<rfloor> - 1127) (- 1074)"

text \<open>
  The double that a real result is rounded to (round to nearest, ties to even). The
  largest finite double is \<open>2 ^ 1024 - 2 ^ 971\<close>; a result of magnitude
  \<open>2 ^ 1024 - 2 ^ 970\<close> or more overflows to an infinity.
\<close>

definition rnd :: "real \<Rightarrow> double" where
  "rnd x =
     (if 2 ^ 1024 - 2 ^ 970 \<le> \<bar>x\<bar> then (if 0 < x then PInf else NInf)
      else Fin (of_int (round_even (x / 2 powi ulp_exp x)) * 2 powi ulp_exp x))"

text \<open>The operators \<^verbatim>\<open>+\<close>, \<^verbatim>\<open>-\<close> and \<^verbatim>\<open>*\<close> on numbers: the exact result, rounded.\<close>

fun fadd :: "double \<Rightarrow> double \<Rightarrow> double" where
  "fadd (Fin a) (Fin b) = rnd (a + b)"
| "fadd NaN _ = NaN"
| "fadd _ NaN = NaN"
| "fadd PInf NInf = NaN"
| "fadd NInf PInf = NaN"
| "fadd PInf _ = PInf"
| "fadd _ PInf = PInf"
| "fadd NInf _ = NInf"
| "fadd _ NInf = NInf"

fun fneg :: "double \<Rightarrow> double" where
  "fneg (Fin a) = Fin (- a)"
| "fneg PInf = NInf"
| "fneg NInf = PInf"
| "fneg NaN = NaN"

definition fsub :: "double \<Rightarrow> double \<Rightarrow> double" where
  "fsub a b = fadd a (fneg b)"

fun fmul :: "double \<Rightarrow> double \<Rightarrow> double" where
  "fmul (Fin a) (Fin b) = rnd (a * b)"
| "fmul NaN _ = NaN"
| "fmul _ NaN = NaN"
| "fmul (Fin a) PInf = (if a = 0 then NaN else if 0 < a then PInf else NInf)"
| "fmul (Fin a) NInf = (if a = 0 then NaN else if 0 < a then NInf else PInf)"
| "fmul PInf (Fin b) = (if b = 0 then NaN else if 0 < b then PInf else NInf)"
| "fmul NInf (Fin b) = (if b = 0 then NaN else if 0 < b then NInf else PInf)"
| "fmul PInf PInf = PInf"
| "fmul PInf NInf = NInf"
| "fmul NInf PInf = NInf"
| "fmul NInf NInf = PInf"

text \<open>\<^verbatim>\<open>x >= 0\<close> and \<^verbatim>\<open>x > 0\<close>; both are false of NaN.\<close>

fun nonnegative :: "double \<Rightarrow> bool" where
  "nonnegative (Fin x) = (0 \<le> x)"
| "nonnegative PInf = True"
| "nonnegative _ = False"

fun positive :: "double \<Rightarrow> bool" where
  "positive (Fin x) = (0 < x)"
| "positive PInf = True"
| "positive _ = False"

text \<open>\<^verbatim>\<open>Number.isInteger\<close>.\<close>

fun isInteger :: "double \<Rightarrow> bool" where
  "isInteger (Fin x) = (of_int \<lfloor>x\<rfloor> = x)"
| "isInteger _ = False"

subsection \<open>Values and products\<close>

text \<open>
  What a property of the argument of \<^verbatim>\<open>addProduct\<close> can hold at run time: the declared
  type \<^verbatim>\<open>Product\<close> is erased, so the schema is what inspects the value. \<open>JOther\<close>
  stands for every value that is neither a string nor a number (\<^verbatim>\<open>undefined\<close> for a
  missing property, \<^verbatim>\<open>null\<close>, booleans, objects).
\<close>

datatype jsval = JString string | JNumber double | JOther

text \<open>
  The argument of \<^verbatim>\<open>addProduct\<close> as it arrives. \<open>raw_id\<close>, \<open>raw_name\<close>, \<open>raw_price\<close> and
  \<open>raw_quantity\<close> are what \<^verbatim>\<open>product.id\<close>, \<^verbatim>\<open>product.name\<close>, \<^verbatim>\<open>product.price\<close> and
  \<^verbatim>\<open>product.quantity\<close> evaluate to; reading a property twice gives the same value. The
  flags say whether the property is an own enumerable property of the object: only
  those are copied by \<^verbatim>\<open>{ ...product }\<close>, while a property inherited from a prototype (a
  getter of a class, for example) is read by \<^verbatim>\<open>product.id\<close> but not copied. Any further
  property of the object is never read by the module.
\<close>

record raw_product =
  raw_id :: jsval
  raw_name :: jsval
  raw_price :: jsval
  raw_quantity :: jsval
  own_id :: bool
  own_name :: bool
  own_price :: bool
  own_quantity :: bool

text \<open>
  \<^verbatim>\<open>type Product = { id: string; name: string; price: number; quantity: number }\<close>:
  the four properties of an argument that has passed the schema, typed.
  The field \<^verbatim>\<open>id\<close> is named \<open>id_p\<close> here, since \<open>id\<close> is the identity function of HOL.
\<close>

record Product =
  id_p :: string
  name :: string
  price :: double
  quantity :: double

text \<open>
  A plain object \<^verbatim>\<open>{ id: ..., name: ..., price: ..., quantity: ... }\<close> as the argument of
  \<^verbatim>\<open>addProduct\<close>: all four properties are its own.
\<close>

definition raw_of :: "Product \<Rightarrow> raw_product" where
  "raw_of p =
     \<lparr>raw_id = JString (id_p p), raw_name = JString (name p),
      raw_price = JNumber (price p), raw_quantity = JNumber (quantity p),
      own_id = True, own_name = True, own_price = True, own_quantity = True\<rparr>"

text \<open>
  An element of the array \<^verbatim>\<open>cart\<close>. It is created by \<^verbatim>\<open>{ ...product }\<close> from an argument
  that has passed the schema, so each property is either missing (\<open>None\<close>, read as
  \<^verbatim>\<open>undefined\<close>) or holds a value of the declared type.
\<close>

record item =
  item_id :: "string option"
  item_name :: "string option"
  item_price :: "double option"
  item_quantity :: "double option"

text \<open>\<^verbatim>\<open>{ ...product }\<close> for a \<open>product\<close> whose four properties read as \<open>v\<close>.\<close>

definition spread :: "raw_product \<Rightarrow> Product \<Rightarrow> item" where
  "spread product v =
     \<lparr>item_id = (if own_id product then Some (id_p v) else None),
      item_name = (if own_name product then Some (name v) else None),
      item_price = (if own_price product then Some (price v) else None),
      item_quantity = (if own_quantity product then Some (quantity v) else None)\<rparr>"

text \<open>
  A numeric property of a stored element as an operand of \<^verbatim>\<open>+\<close> or \<^verbatim>\<open>*\<close>: a missing
  property reads as \<^verbatim>\<open>undefined\<close>, which these operators convert to NaN.
\<close>

fun to_number :: "double option \<Rightarrow> double" where
  "to_number (Some d) = d"
| "to_number None = NaN"

subsection \<open>Exceptions\<close>

text \<open>
  \<open>ZodError\<close> is what \<^verbatim>\<open>ProductSchema.parse\<close> throws (the specification's
  ValidationError); \<open>Error msg\<close> is \<^verbatim>\<open>new Error(msg)\<close>, thrown by \<^verbatim>\<open>applyDiscount\<close>
  with the message \<^verbatim>\<open>Code promo invalide\<close> (the specification's InvalidPromoCode).
\<close>

datatype exn = ZodError | Error string

subsection \<open>The schema\<close>

text \<open>
  The library \<^verbatim>\<open>zod\<close> is imported, and its version is not fixed by the sources. The two
  major versions in use differ on numbers, so the version is a parameter of the model:
  \<^item> \<^verbatim>\<open>z.number()\<close> rejects NaN in both; version 3 accepts the infinities, version 4
    rejects them;
  \<^item> \<^verbatim>\<open>.int()\<close> is \<^verbatim>\<open>Number.isInteger\<close> in version 3; version 4 also requires a safe
    integer (magnitude at most \<open>2 ^ 53 - 1\<close>);
  \<^item> \<^verbatim>\<open>.nonnegative()\<close> is \<^verbatim>\<open>>= 0\<close> and \<^verbatim>\<open>.positive()\<close> is \<^verbatim>\<open>> 0\<close> in both.
\<close>

datatype zod = Zod3 | Zod4

fun z_number :: "zod \<Rightarrow> double \<Rightarrow> bool" where
  "z_number zv (Fin x) = True"
| "z_number zv NaN = False"
| "z_number Zod3 PInf = True"
| "z_number Zod3 NInf = True"
| "z_number Zod4 PInf = False"
| "z_number Zod4 NInf = False"

fun z_int :: "zod \<Rightarrow> double \<Rightarrow> bool" where
  "z_int Zod3 d = isInteger d"
| "z_int Zod4 (Fin x) = (isInteger (Fin x) \<and> \<bar>x\<bar> \<le> 2 ^ 53 - 1)"
| "z_int Zod4 d = False"

text \<open>
  \<^verbatim>\<open>
  const ProductSchema = z.object({
    id: z.string(),
    name: z.string(),
    price: z.number().nonnegative(),
    quantity: z.number().int().positive(),
  });
  \<close>
  \<open>ProductSchema_parse\<close> is \<^verbatim>\<open>ProductSchema.parse\<close>: it throws \<open>ZodError\<close> unless
  every property passes its checks, and otherwise yields the four properties, typed.
\<close>

definition ProductSchema_parse :: "zod \<Rightarrow> raw_product \<Rightarrow> exn + Product" where
  "ProductSchema_parse zv r =
     (case raw_id r of
        JString i \<Rightarrow>
          (case raw_name r of
             JString n \<Rightarrow>
               (case raw_price r of
                  JNumber p \<Rightarrow>
                    (case raw_quantity r of
                       JNumber q \<Rightarrow>
                         if z_number zv p \<and> nonnegative p
                            \<and> z_number zv q \<and> z_int zv q \<and> positive q
                         then Inr \<lparr>id_p = i, name = n, price = p, quantity = q\<rparr>
                         else Inl ZodError
                     | _ \<Rightarrow> Inl ZodError)
                | _ \<Rightarrow> Inl ZodError)
           | _ \<Rightarrow> Inl ZodError)
      | _ \<Rightarrow> Inl ZodError)"

subsection \<open>The module state\<close>

text \<open>
  \<^verbatim>\<open>let cart: Product[] = []; let discount = 0;\<close>
  The third field is the console: \<^verbatim>\<open>getTotal\<close> writes the subtotal to it with
  \<^verbatim>\<open>console.log\<close>. It records the numbers logged, oldest first.
\<close>

record state =
  cart :: "item list"
  discount :: double
  console :: "double list"

definition init :: state where
  "init = \<lparr>cart = [], discount = Fin 0, console = []\<rparr>"

subsection \<open>The exported functions\<close>

text \<open>
  \<^verbatim>\<open>poductExisting.quantity += product.quantity\<close>, where \<^verbatim>\<open>poductExisting\<close> is the
  object \<^verbatim>\<open>cart.find((p) => p.id === product.id)\<close> returned: the first element of the
  array with that id is updated in place. Every element of the array is an object of its
  own (\<^verbatim>\<open>push\<close> stores a fresh copy), so no other element changes.
\<close>

fun add_to_existing :: "string \<Rightarrow> double \<Rightarrow> item list \<Rightarrow> item list" where
  "add_to_existing i q [] = []"
| "add_to_existing i q (x # xs) =
     (if item_id x = Some i
      then x\<lparr>item_quantity := Some (fadd (to_number (item_quantity x)) q)\<rparr> # xs
      else x # add_to_existing i q xs)"

text \<open>
  \<^verbatim>\<open>
  const addProduct = (product: Product): void => {
    ProductSchema.parse(product);
    const poductExisting = cart.find((p) => p.id === product.id);
    if (poductExisting) {
      poductExisting.quantity += product.quantity;
    } else {
      cart.push({ ...product });
    }
  };
  \<close>
  The first component of the result is the exception thrown, if any. Past the parse,
  \<^verbatim>\<open>product.id\<close> is a string and \<^verbatim>\<open>product.quantity\<close> a number: \<open>id_p v\<close> and
  \<open>quantity v\<close> below. The value the parse returns is not what is stored: the element
  pushed is the copy \<^verbatim>\<open>{ ...product }\<close>.
\<close>

definition addProduct :: "zod \<Rightarrow> raw_product \<Rightarrow> state \<Rightarrow> exn option \<times> state" where
  "addProduct zv product s =
     (case ProductSchema_parse zv product of
        Inl e \<Rightarrow> (Some e, s)
      | Inr v \<Rightarrow>
          (case find (\<lambda>p. item_id p = Some (id_p v)) (cart s) of
             Some poductExisting \<Rightarrow>
               (None, s\<lparr>cart := add_to_existing (id_p v) (quantity v) (cart s)\<rparr>)
           | None \<Rightarrow> (None, s\<lparr>cart := cart s @ [spread product v]\<rparr>)))"

text \<open>\<^verbatim>\<open>cart = cart.filter((p) => p.id !== productId);\<close>\<close>

definition removeProduct :: "string \<Rightarrow> state \<Rightarrow> exn option \<times> state" where
  "removeProduct productId s =
     (None, s\<lparr>cart := filter (\<lambda>p. item_id p \<noteq> Some productId) (cart s)\<rparr>)"

text \<open>\<^verbatim>\<open>return cart.reduce((acc, p) => acc + p.quantity, 0);\<close>\<close>

definition getProductCount :: "state \<Rightarrow> double \<times> state" where
  "getProductCount s =
     (foldl (\<lambda>acc p. fadd acc (to_number (item_quantity p))) (Fin 0) (cart s), s)"

text \<open>
  \<^verbatim>\<open>
  const total = cart.reduce((acc, p) => acc + p.price * p.quantity, 0);
  console.log(`Total before discount: ${total}`);
  return total * (1 - discount);
  \<close>
\<close>

definition getTotal :: "state \<Rightarrow> double \<times> state" where
  "getTotal s =
     (let total =
        foldl (\<lambda>acc p. fadd acc (fmul (to_number (item_price p)) (to_number (item_quantity p))))
          (Fin 0) (cart s)
      in (fmul total (fsub (Fin 1) (discount s)), s\<lparr>console := console s @ [total]\<rparr>))"

text \<open>
  \<^verbatim>\<open>
  if (code === "PROMO10") { discount = 0.1; }
  else { throw new Error("Code promo invalide"); }
  \<close>
  The literal \<^verbatim>\<open>0.1\<close> is the double nearest to one tenth.
\<close>

definition applyDiscount :: "string \<Rightarrow> state \<Rightarrow> exn option \<times> state" where
  "applyDiscount code s =
     (if code = ''PROMO10'' then (None, s\<lparr>discount := rnd (1 / 10)\<rparr>)
      else (Some (Error ''Code promo invalide''), s))"

text \<open>\<^verbatim>\<open>cart = []; discount = 0;\<close>\<close>

definition resetCart :: "state \<Rightarrow> exn option \<times> state" where
  "resetCart s = (None, s\<lparr>cart := [], discount := Fin 0\<rparr>)"

subsection \<open>Sequences of calls\<close>

text \<open>
  A client of the module can only call the six exported functions. \<open>step\<close> is the
  state a call leaves behind, whether it returned or threw; \<open>run\<close> performs a sequence
  of calls from left to right.
\<close>

datatype call =
  AddProduct raw_product
| RemoveProduct string
| GetProductCount
| GetTotal
| ApplyDiscount string
| ResetCart

fun step :: "zod \<Rightarrow> state \<Rightarrow> call \<Rightarrow> state" where
  "step zv s (AddProduct product) = snd (addProduct zv product s)"
| "step zv s (RemoveProduct productId) = snd (removeProduct productId s)"
| "step zv s GetProductCount = snd (getProductCount s)"
| "step zv s GetTotal = snd (getTotal s)"
| "step zv s (ApplyDiscount code) = snd (applyDiscount code s)"
| "step zv s ResetCart = snd (resetCart s)"

definition run :: "zod \<Rightarrow> call list \<Rightarrow> state \<Rightarrow> state" where
  "run zv cs s = foldl (step zv) s cs"

subsection \<open>Exact values\<close>

text \<open>
  The specification speaks of sums and products of the numbers in the cart. These are
  the same quantities over the reals, with no rounding, to compare the code with.
  \<open>the_real\<close> is the real number a finite double denotes.
\<close>

fun the_real :: "double \<Rightarrow> real" where
  "the_real (Fin x) = x"
| "the_real _ = 0"

text \<open>The sum of a list of doubles as \<^verbatim>\<open>reduce\<close> computes it: from 0, left to right, rounded.\<close>

definition dsum :: "double list \<Rightarrow> double" where
  "dsum ds = foldl fadd (Fin 0) ds"

text \<open>The sum over the stored items of price times quantity, and of the quantities.\<close>

definition exact_subtotal :: "item list \<Rightarrow> real" where
  "exact_subtotal xs =
     (\<Sum>p\<leftarrow>xs. the_real (to_number (item_price p)) * the_real (to_number (item_quantity p)))"


text \<open>The quantity of a candidate, as a real.\<close>

definition raw_qty :: "raw_product \<Rightarrow> real" where
  "raw_qty r = (case raw_quantity r of JNumber d \<Rightarrow> the_real d | _ \<Rightarrow> 0)"

subsection \<open>Invariants\<close>





definition int_priced :: "item list \<Rightarrow> bool" where
  "int_priced xs \<longleftrightarrow>
     (\<forall>p\<in>set xs. \<exists>a b. item_price p = Some (Fin a) \<and> item_quantity p = Some (Fin b)
        \<and> a \<in> \<int> \<and> b \<in> \<int> \<and> 0 \<le> a \<and> 0 \<le> b)"

subsection \<open>Example data\<close>

text \<open>The stored copy of a plain object.\<close>

definition plain_item :: "Product \<Rightarrow> item" where
  "plain_item p =
     \<lparr>item_id = Some (id_p p), item_name = Some (name p),
      item_price = Some (price p), item_quantity = Some (quantity p)\<rparr>"

definition tshirt :: Product where
  "tshirt = \<lparr>id_p = ''1'', name = ''T-shirt'', price = Fin 20, quantity = Fin 2\<rparr>"

definition item2 :: Product where
  "item2 = \<lparr>id_p = ''2'', name = ''Item 2'', price = Fin 15, quantity = Fin 3\<rparr>"

definition tshirt_one :: Product where
  "tshirt_one = \<lparr>id_p = ''1'', name = ''Shirt'', price = Fin 25, quantity = Fin 1\<rparr>"

definition item2_more :: Product where
  "item2_more = \<lparr>id_p = ''2'', name = ''Other'', price = Fin 1, quantity = Fin 4\<rparr>"

definition bad_product :: raw_product where
  "bad_product =
     \<lparr>raw_id = JString ''1'', raw_name = JString ''Bad'',
      raw_price = JNumber (Fin (- 5)), raw_quantity = JNumber (Fin 0),
      own_id = True, own_name = True, own_price = True, own_quantity = True\<rparr>"

definition example_state :: state where
  "example_state =
     \<lparr>cart = [plain_item tshirt, plain_item item2], discount = rnd (1 / 10), console = []\<rparr>"

text \<open>One item of price 13, and one of price 100, with the discount of \<^verbatim>\<open>PROMO10\<close>.\<close>

definition thirteen :: Product where
  "thirteen = \<lparr>id_p = ''1'', name = ''Item'', price = Fin 13, quantity = Fin 1\<rparr>"

definition hundred :: Product where
  "hundred = \<lparr>id_p = ''1'', name = ''Item'', price = Fin 100, quantity = Fin 1\<rparr>"

definition promo_state :: "Product \<Rightarrow> state" where
  "promo_state p = \<lparr>cart = [plain_item p], discount = rnd (1 / 10), console = []\<rparr>"

text \<open>
  Quantities at the edge of the integers that doubles represent exactly:
  \<open>9007199254740991\<close> is \<open>2 ^ 53 - 1\<close>, the largest safe integer.
\<close>

definition big :: Product where
  "big = \<lparr>id_p = ''1'', name = ''Big'', price = Fin 1, quantity = Fin 9007199254740991\<rparr>"

definition two_more :: Product where
  "two_more = \<lparr>id_p = ''1'', name = ''Big'', price = Fin 1, quantity = Fin 2\<rparr>"

definition two_other :: Product where
  "two_other = \<lparr>id_p = ''2'', name = ''Two'', price = Fin 1, quantity = Fin 2\<rparr>"



text \<open>
  An object that passes the schema but whose \<^verbatim>\<open>id\<close> and \<^verbatim>\<open>quantity\<close> are not its own
  properties, such as an instance of a class that defines them as getters.
\<close>

definition getter_product :: raw_product where
  "getter_product = (raw_of tshirt)\<lparr>own_id := False, own_quantity := False\<rparr>"


text \<open>A session that uses every exported function, with two calls that throw.\<close>

definition example_calls :: "call list" where
  "example_calls =
     [AddProduct (raw_of tshirt), ApplyDiscount ''PROMO10'', AddProduct (raw_of tshirt_one),
      AddProduct bad_product, AddProduct (raw_of item2), GetTotal, ApplyDiscount ''INVALIDE'',
      RemoveProduct ''2'', GetProductCount, AddProduct (raw_of item2_more)]"

section \<open>Auxiliary facts\<close>

subsection \<open>Rounding\<close>

lemma round_even_of_int: "round_even (of_int k) = k"
  by (simp add: round_even_def)

lemma round_even_Ints: "y \<in> \<int> \<Longrightarrow> of_int (round_even y) = y"
  by (auto simp: round_even_of_int elim: Ints_cases)


lemma bitlen_eqI:
  assumes "2 ^ n \<le> m" and "m < 2 ^ Suc n"
  shows "bitlen m = int n + 1"
proof -
  have pos: "0 < m" using assms(1) by (smt (verit) zero_less_power)
  from bitlen_bounds [OF pos] have lo: "2 ^ nat (bitlen m - 1) \<le> m" and hi: "m < 2 ^ nat (bitlen m)"
    by simp_all
  have b1: "1 \<le> bitlen m" using pos by (simp add: bitlen_alt_def)
  have "(2::int) ^ n < 2 ^ nat (bitlen m)" using assms(1) hi by linarith
  then have "n < nat (bitlen m)" by (simp add: power_strict_increasing_iff)
  moreover have "(2::int) ^ nat (bitlen m - 1) < 2 ^ Suc n" using lo assms(2) by linarith
  then have "nat (bitlen m - 1) < Suc n"
    by (simp only: power_strict_increasing_iff one_less_numeral_iff semiring_norm)
  ultimately show ?thesis using b1 by linarith
qed

lemma two_powi_scale:
  assumes "- 1074 \<le> e"
  shows "(2::real) powi e * 2 ^ 1074 = 2 ^ nat (e + 1074)"
proof -
  have "(2::real) powi (e + 1074) = 2 powi e * 2 powi 1074"
    by (rule power_int_add) simp
  moreover have "(2::real) powi (e + 1074) = 2 ^ nat (e + 1074)"
    using assms by (intro power_int_nonneg_exp) linarith
  moreover have "(2::real) powi 1074 = 2 ^ 1074"
    by (rule power_int_numeral)
  ultimately show ?thesis by (simp only:)
qed

lemma ulp_exp_eqI:
  assumes lo: "2 powi e \<le> \<bar>x\<bar>" and hi: "\<bar>x\<bar> < 2 powi (e + 1)" and e: "- 1022 \<le> e"
  shows "ulp_exp x = e - 52"
proof -
  define n where "n = nat (e + 1074)"
  define y where "y = \<bar>x\<bar> * 2 ^ 1074"
  have n: "int n = e + 1074" using e by (simp add: n_def)
  have sn: "Suc n = nat (e + 1 + 1074)" using e by (simp add: n_def)
  have p1: "(2::real) powi e * 2 ^ 1074 = 2 ^ n"
    unfolding n_def using e by (intro two_powi_scale) linarith
  have p2: "(2::real) powi (e + 1) * 2 ^ 1074 = 2 ^ Suc n"
    unfolding sn using e by (intro two_powi_scale) linarith
  have pos: "(0::real) < 2 ^ 1074" by (rule zero_less_power) simp
  have "2 powi e * 2 ^ 1074 \<le> y"
    unfolding y_def using lo pos by (intro mult_right_mono) simp_all
  then have "of_int (2 ^ n) \<le> y" by (simp only: p1 of_int_power of_int_numeral)
  then have a: "2 ^ n \<le> \<lfloor>y\<rfloor>" by (simp only: le_floor_iff)
  have "y < 2 powi (e + 1) * 2 ^ 1074"
    unfolding y_def using hi pos by (intro mult_strict_right_mono)
  then have "y < of_int (2 ^ Suc n)" by (simp only: p2 of_int_power of_int_numeral)
  then have b: "\<lfloor>y\<rfloor> < 2 ^ Suc n" by (simp only: floor_less_iff)
  have "bitlen \<lfloor>y\<rfloor> = int n + 1" using a b by (rule bitlen_eqI)
  then have "bitlen \<lfloor>\<bar>x\<bar> * 2 ^ 1074\<rfloor> - 1127 = e - 52"
    unfolding y_def using n by linarith
  then show ?thesis using e unfolding ulp_exp_def by linarith
qed

lemma rnd_normal:
  assumes "2 powi e \<le> \<bar>x\<bar>" and "\<bar>x\<bar> < 2 powi (e + 1)" and "- 1022 \<le> e"
    and "\<bar>x\<bar> < 2 ^ 1024 - 2 ^ 970"
  shows "rnd x = Fin (of_int (round_even (x / 2 powi (e - 52))) * 2 powi (e - 52))"
proof -
  have "\<not> 2 ^ 1024 - 2 ^ 970 \<le> \<bar>x\<bar>" using assms(4) by (simp only: not_le)
  then show ?thesis
    unfolding rnd_def ulp_exp_eqI [OF assms(1,2,3)] by (simp only: if_False)
qed

lemma exists_binade:
  assumes "1 \<le> (a::real)"
  shows "\<exists>n::nat. 2 ^ n \<le> a \<and> a < 2 ^ Suc n"
proof -
  define m where "m = \<lfloor>a\<rfloor>"
  have m: "1 \<le> m" using assms by (simp add: m_def le_floor_iff)
  then have pos: "0 < m" by simp
  define n where "n = nat (bitlen m - 1)"
  have b1: "1 \<le> bitlen m" using pos by (simp add: bitlen_alt_def)
  then have sn: "nat (bitlen m) = Suc n" by (simp add: n_def)
  from bitlen_bounds [OF pos] have lo: "2 ^ n \<le> m" and hi: "m < 2 ^ Suc n"
    by (simp_all add: n_def sn [unfolded n_def])
  have "of_int (2 ^ n) \<le> a" using lo by (simp only: le_floor_iff m_def)
  then have "2 ^ n \<le> a" by simp
  moreover have "m + 1 \<le> 2 ^ Suc n" using hi by simp
  then have "of_int (m + 1) \<le> (of_int (2 ^ Suc n) :: real)" by (simp only: of_int_le_iff)
  then have "a < 2 ^ Suc n" unfolding m_def by (simp only: of_int_power of_int_numeral) linarith
  ultimately show ?thesis by blast
qed

lemma rnd_int:
  assumes x: "x \<in> \<int>" and b: "\<bar>x\<bar> \<le> 2 ^ 53"
  shows "rnd x = Fin x"
proof (cases "x = 0")
  case True
  then show ?thesis by (simp add: rnd_def round_even_def)
next
  case False
  then have "1 \<le> \<bar>x\<bar>" using x by (auto elim!: Ints_cases)
  from exists_binade [OF this] obtain n :: nat where lo: "2 ^ n \<le> \<bar>x\<bar>" and hi: "\<bar>x\<bar> < 2 ^ Suc n"
    by blast
  have "(2::real) ^ n \<le> 2 ^ 53" using lo b by linarith
  then have n: "n \<le> 53" by (simp only: power_increasing_iff one_less_numeral_iff semiring_norm)
  have lo': "2 powi int n \<le> \<bar>x\<bar>" using lo by simp
  have hi': "\<bar>x\<bar> < 2 powi (int n + 1)" using hi by (simp add: power_int_add)
  have "(2::real) ^ 53 < 2 ^ 1024 - 2 ^ 970" by simp
  then have th: "\<bar>x\<bar> < 2 ^ 1024 - 2 ^ 970" using b by linarith
  have r: "rnd x = Fin (of_int (round_even (x / 2 powi (int n - 52))) * 2 powi (int n - 52))"
    by (rule rnd_normal [OF lo' hi' _ th]) simp
  have "x / 2 powi (int n - 52) \<in> \<int>"
  proof (cases "n \<le> 52")
    case True
    then have "(2::real) powi (int n - 52) = 1 / 2 ^ (52 - n)"
      by (simp add: power_int_diff power_diff field_simps)
    then have "x / 2 powi (int n - 52) = x * 2 ^ (52 - n)" by simp
    then show ?thesis using x by simp
  next
    case False
    then have n53: "n = 53" using n by simp
    then have "\<bar>x\<bar> = 2 ^ 53" using lo b by simp
    then have "x = 2 ^ 53 \<or> x = - (2 ^ 53)" by linarith
    moreover have "(2::real) powi (int n - 52) = 2" by (simp add: n53)
    ultimately show ?thesis by auto
  qed
  then have "of_int (round_even (x / 2 powi (int n - 52))) = x / 2 powi (int n - 52)"
    by (rule round_even_Ints)
  then show ?thesis by (simp add: r)
qed


lemma rnd_tenth: "rnd (1 / 10) = Fin (3602879701896397 / 2 ^ 55)"
  using rnd_normal [of "- 4" "1 / 10"] by (simp add: round_even_def)

lemma one_minus_tenth: "fsub (Fin 1) (rnd (1 / 10)) = Fin (8106479329266893 / 2 ^ 53)"
  using rnd_normal [of "- 1" "1 - 3602879701896397 / 2 ^ 55"]
  by (simp add: fsub_def rnd_tenth round_even_def)

lemma thirteen_discounted:
  "fmul (Fin 13) (Fin (8106479329266893 / 2 ^ 53)) = Fin (6586514455029351 / 2 ^ 49)"
  using rnd_normal [of 3 "13 * (8106479329266893 / 2 ^ 53)"]
  by (simp add: round_even_def)

lemma hundred_discounted:
  "fmul (Fin 100) (Fin (8106479329266893 / 2 ^ 53)) = Fin 90"
  using rnd_normal [of 6 "100 * (8106479329266893 / 2 ^ 53)"]
  by (simp add: round_even_def)


subsection \<open>The schema and adding\<close>

lemma parse_Inr_iff:
  "ProductSchema_parse zv r = Inr v \<longleftrightarrow>
     raw_id r = JString (id_p v) \<and> raw_name r = JString (name v)
     \<and> raw_price r = JNumber (price v) \<and> raw_quantity r = JNumber (quantity v)
     \<and> z_number zv (price v) \<and> nonnegative (price v)
     \<and> z_number zv (quantity v) \<and> z_int zv (quantity v) \<and> positive (quantity v)"
  by (cases v) (auto simp: ProductSchema_parse_def split: jsval.splits)

lemma parse_cases:
  "ProductSchema_parse zv r = Inl ZodError \<or> (\<exists>v. ProductSchema_parse zv r = Inr v)"
  by (simp add: ProductSchema_parse_def split: jsval.splits)

lemma isInteger_Fin: "isInteger (Fin x) \<longleftrightarrow> x \<in> \<int>"
  by (metis isInteger.simps(1) Ints_of_int floor_of_int Ints_cases)

lemma valid_quantity:
  assumes "z_int zv q" and "positive q"
  shows "\<exists>x. q = Fin x \<and> x \<in> \<int> \<and> 1 \<le> x"
proof (cases q)
  case (Fin x)
  have "isInteger (Fin x)" using assms(1) Fin by (cases zv) simp_all
  then have i: "x \<in> \<int>" by (simp only: isInteger_Fin)
  have "0 < x" using assms(2) Fin by simp
  then have "1 \<le> x" using i by (auto elim!: Ints_cases)
  then show ?thesis using Fin i by simp
qed (use assms in \<open>cases zv; simp\<close>)+

lemma parse_quantity:
  assumes "ProductSchema_parse zv r = Inr v"
  shows "\<exists>x. quantity v = Fin x \<and> x \<in> \<int> \<and> 1 \<le> x \<and> raw_qty r = x"
proof -
  from assms have q: "raw_quantity r = JNumber (quantity v)"
    and "z_int zv (quantity v)" and "positive (quantity v)"
    by (simp_all add: parse_Inr_iff)
  from valid_quantity [OF this(2,3)] obtain x where "quantity v = Fin x" "x \<in> \<int>" "1 \<le> x"
    by blast
  then show ?thesis using q by (simp add: raw_qty_def)
qed

lemma find_id_None:
  "find (\<lambda>x. item_id x = Some i) xs = None \<longleftrightarrow> Some i \<notin> item_id ` set xs"
  by (induction xs) auto

lemma addProduct_valid:
  assumes "ProductSchema_parse zv r = Inr v"
  shows "addProduct zv r s =
     (if Some (id_p v) \<in> item_id ` set (cart s)
      then (None, s\<lparr>cart := add_to_existing (id_p v) (quantity v) (cart s)\<rparr>)
      else (None, s\<lparr>cart := cart s @ [spread r v]\<rparr>))"
  using find_id_None [of "id_p v" "cart s"] assms
  by (auto simp: addProduct_def split: option.splits)

lemma addProduct_invalid:
  assumes "ProductSchema_parse zv r = Inl e"
  shows "addProduct zv r s = (Some e, s)"
  using assms by (simp add: addProduct_def)












subsection \<open>Invariants of a call\<close>

lemma foldl_fadd_map:
  "foldl (\<lambda>acc p. fadd acc (f p)) a xs = foldl fadd a (map f xs)"
  by (induction xs arbitrary: a) simp_all

lemma exact_subtotal_nonneg: "int_priced xs \<Longrightarrow> 0 \<le> exact_subtotal xs"
proof (induction xs)
  case Nil
  show ?case by (simp add: exact_subtotal_def)
next
  case (Cons x xs)
  then have "int_priced xs" by (simp add: int_priced_def)
  then have "0 \<le> exact_subtotal xs" by (rule Cons.IH)
  moreover obtain a b where "item_price x = Some (Fin a)" "item_quantity x = Some (Fin b)"
    "0 \<le> a" "0 \<le> b"
    using Cons.prems by (auto simp: int_priced_def)
  ultimately show ?case by (simp add: exact_subtotal_def)
qed

lemma total_fold_exact:
  "int_priced xs \<Longrightarrow> t \<in> \<int> \<Longrightarrow> 0 \<le> t \<Longrightarrow> t + exact_subtotal xs \<le> 2 ^ 53 \<Longrightarrow>
   foldl (\<lambda>acc p. fadd acc (fmul (to_number (item_price p)) (to_number (item_quantity p))))
     (Fin t) xs = Fin (t + exact_subtotal xs)"
proof (induction xs arbitrary: t)
  case Nil
  show ?case by (simp add: exact_subtotal_def)
next
  case (Cons x xs)
  from Cons.prems(1) have rest: "int_priced xs" by (simp add: int_priced_def)
  from Cons.prems(1) obtain a b where ab: "item_price x = Some (Fin a)"
    "item_quantity x = Some (Fin b)" "a \<in> \<int>" "b \<in> \<int>" "0 \<le> a" "0 \<le> b"
    by (auto simp: int_priced_def)
  have es: "exact_subtotal (x # xs) = a * b + exact_subtotal xs"
    using ab(1,2) by (simp add: exact_subtotal_def)
  have nn: "0 \<le> exact_subtotal xs" using rest by (rule exact_subtotal_nonneg)
  have p0: "0 \<le> a * b" using ab(5,6) by simp
  have pi: "a * b \<in> \<int>" using ab(3,4) by simp
  have "\<bar>a * b\<bar> \<le> 2 ^ 53" using Cons.prems(3,4) p0 nn unfolding es by linarith
  then have m: "rnd (a * b) = Fin (a * b)" using pi by (intro rnd_int)
  have "\<bar>t + a * b\<bar> \<le> 2 ^ 53" using Cons.prems(3,4) p0 nn unfolding es by linarith
  then have s: "rnd (t + a * b) = Fin (t + a * b)" using pi Cons.prems(2) by (intro rnd_int) simp_all
  have "foldl (\<lambda>acc p. fadd acc (fmul (to_number (item_price p)) (to_number (item_quantity p))))
     (Fin (t + a * b)) xs = Fin (t + a * b + exact_subtotal xs)"
    using rest Cons.prems(2,3,4) pi p0 unfolding es by (intro Cons.IH) (simp_all add: add.assoc)
  then show ?case by (simp add: ab(1,2) m s es add.assoc)
qed





lemma discount_step:
  "discount (step zv s c) =
     (case c of
        ApplyDiscount code \<Rightarrow> if code = ''PROMO10'' then rnd (1 / 10) else discount s
      | ResetCart \<Rightarrow> Fin 0
      | _ \<Rightarrow> discount s)"
  by (cases c)
     (simp_all add: addProduct_def removeProduct_def getProductCount_def getTotal_def Let_def
        applyDiscount_def resetCart_def split: sum.splits option.splits)

lemma discount_foldl:
  "discount s = Fin 0 \<or> discount s = rnd (1 / 10) \<Longrightarrow>
   discount (foldl (step zv) s cs) = Fin 0 \<or> discount (foldl (step zv) s cs) = rnd (1 / 10)"
proof (induction cs arbitrary: s)
  case Nil
  then show ?case by simp
next
  case (Cons c cs)
  have "discount (step zv s c) = Fin 0 \<or> discount (step zv s c) = rnd (1 / 10)"
    using Cons.prems by (simp add: discount_step split: call.splits)
  then show ?case using Cons.IH by simp
qed

subsection \<open>Evaluating the examples\<close>

lemma z_int_safe: "x \<in> \<int> \<Longrightarrow> \<bar>x\<bar> \<le> 2 ^ 53 - 1 \<Longrightarrow> z_int zv (Fin x)"
  by (cases zv) (simp_all add: isInteger_Fin)

lemma parse_raw_of:
  "ProductSchema_parse zv (raw_of p) =
     (if z_number zv (price p) \<and> nonnegative (price p)
         \<and> z_number zv (quantity p) \<and> z_int zv (quantity p) \<and> positive (quantity p)
      then Inr p else Inl ZodError)"
  by (simp add: ProductSchema_parse_def raw_of_def)

lemma parse_examples:
  "ProductSchema_parse zv (raw_of tshirt) = Inr tshirt"
  "ProductSchema_parse zv (raw_of item2) = Inr item2"
  "ProductSchema_parse zv (raw_of tshirt_one) = Inr tshirt_one"
  "ProductSchema_parse zv (raw_of item2_more) = Inr item2_more"
  "ProductSchema_parse zv (raw_of thirteen) = Inr thirteen"
  "ProductSchema_parse zv (raw_of hundred) = Inr hundred"
  "ProductSchema_parse zv (raw_of big) = Inr big"
  "ProductSchema_parse zv (raw_of two_more) = Inr two_more"
  "ProductSchema_parse zv (raw_of two_other) = Inr two_other"
  "ProductSchema_parse zv getter_product = Inr tshirt"
  "ProductSchema_parse zv bad_product = Inl ZodError"
  by (simp_all add: parse_raw_of z_int_safe tshirt_def item2_def tshirt_one_def item2_more_def
      thirteen_def hundred_def big_def two_more_def two_other_def getter_product_def
      ProductSchema_parse_def raw_of_def bad_product_def)


lemma spread_raw_of: "spread (raw_of p) p = plain_item p"
  by (simp add: spread_def raw_of_def plain_item_def)

lemma addProduct_plain:
  assumes "ProductSchema_parse zv (raw_of p) = Inr p"
  shows "addProduct zv (raw_of p) s =
     (if Some (id_p p) \<in> item_id ` set (cart s)
      then (None, s\<lparr>cart := add_to_existing (id_p p) (quantity p) (cart s)\<rparr>)
      else (None, s\<lparr>cart := cart s @ [plain_item p]\<rparr>))"
  by (simp add: addProduct_valid [OF assms] spread_raw_of)

lemmas addProduct_examples =
  addProduct_plain [OF parse_examples(1)] addProduct_plain [OF parse_examples(2)]
  addProduct_plain [OF parse_examples(3)] addProduct_plain [OF parse_examples(4)]
  addProduct_plain [OF parse_examples(5)] addProduct_plain [OF parse_examples(6)]
  addProduct_plain [OF parse_examples(7)] addProduct_plain [OF parse_examples(8)]
  addProduct_plain [OF parse_examples(9)] addProduct_valid [OF parse_examples(10)]
  addProduct_invalid [OF parse_examples(11)]

lemmas example_defs =
  plain_item_def tshirt_def item2_def tshirt_one_def item2_more_def thirteen_def hundred_def
  big_def two_more_def two_other_def

lemma run_example_calls:
  "run zv example_calls init =
     \<lparr>cart = [(plain_item tshirt)\<lparr>item_quantity := Some (Fin 3)\<rparr>, plain_item item2_more],
      discount = rnd (1 / 10), console = [Fin 105]\<rparr>"
  apply (simp add: run_def example_calls_def addProduct_examples)
  apply (simp add: init_def example_defs rnd_int applyDiscount_def getTotal_def Let_def
      getProductCount_def removeProduct_def)
  done

lemma discounted_13:
  "fmul (Fin 13) (fsub (Fin 1) (rnd (1 / 10))) = Fin (6586514455029351 / 2 ^ 49)"
  unfolding one_minus_tenth by (rule thirteen_discounted)

lemma discounted_100: "fmul (Fin 100) (fsub (Fin 1) (rnd (1 / 10))) = Fin 90"
  unfolding one_minus_tenth by (rule hundred_discounted)

lemma getTotal_single:
  "fst (getTotal \<lparr>cart = [plain_item p], discount = d, console = c\<rparr>)
     = fmul (fadd (Fin 0) (fmul (price p) (quantity p))) (fsub (Fin 1) d)"
  by (simp add: getTotal_def plain_item_def Let_def del: fadd.simps fmul.simps)

lemma subtotal_13: "fadd (Fin 0) (fmul (price thirteen) (quantity thirteen)) = Fin 13"
  by (simp add: thirteen_def rnd_int)

lemma subtotal_100: "fadd (Fin 0) (fmul (price hundred) (quantity hundred)) = Fin 100"
  by (simp add: hundred_def rnd_int)

lemma getTotal_promo_thirteen:
  "fst (getTotal (promo_state thirteen)) = Fin (6586514455029351 / 2 ^ 49)"
  unfolding promo_state_def getTotal_single subtotal_13 by (rule discounted_13)

lemma total_fold_eq_dsum:
  "foldl (\<lambda>acc p. fadd acc (fmul (to_number (item_price p)) (to_number (item_quantity p))))
     (Fin 0) xs
   = dsum (map (\<lambda>p. fmul (to_number (item_price p)) (to_number (item_quantity p))) xs)"
  unfolding dsum_def by (rule foldl_fadd_map)

lemma one_minus_finite:
  assumes "\<bar>d\<bar> \<le> 2 ^ 1024 - 2 ^ 971"
  shows "\<exists>y. fsub (Fin 1) (Fin d) = Fin y"
proof -
  have "(2::real) ^ 1024 - 2 ^ 971 + 1 < 2 ^ 1024 - 2 ^ 970" by simp
  then have "\<not> 2 ^ 1024 - 2 ^ 970 \<le> \<bar>1 - d\<bar>" using assms by linarith
  then show ?thesis by (simp add: fsub_def rnd_def)
qed

lemma exact_subtotal_Ints: "int_priced xs \<Longrightarrow> exact_subtotal xs \<in> \<int>"
  by (induction xs) (auto simp: int_priced_def exact_subtotal_def)

lemma fmul_one_exact:
  assumes "t \<in> \<int>" and "0 \<le> t" and "t \<le> 2 ^ 53"
  shows "fmul (Fin t) (fsub (Fin 1) (Fin 0)) = Fin t"
  using assms by (simp add: fsub_def rnd_int)

lemma fmul_zero_finite: "fmul (Fin 0) (Fin y) = Fin 0"
  by (simp add: rnd_int)

lemma dsum_single: "dsum [x] = fadd (Fin 0) x"
  by (simp add: dsum_def)









section \<open>The claims\<close>

subsection \<open>C1: the total\<close>

text \<open>
  C1. In every state, \<^verbatim>\<open>getTotal\<close> returns what the code computes in double
  arithmetic: from 0 it adds price times quantity of each stored item, in order, every
  product and every sum rounded to the nearest double (a missing price or quantity
  counts as NaN), and multiplies the subtotal by the rounded \<open>1 - discount\<close>, rounding
  once more. The result is the exact value of (sum of price times quantity) times
  (1 - discount) when the discount is 0 and all prices and quantities are non-negative
  integers whose exact subtotal is at most \<open>2 ^ 53\<close>. On an empty cart it returns 0 for
  every finite discount. The call changes neither \<^verbatim>\<open>cart\<close> nor \<^verbatim>\<open>discount\<close> (it only
  writes a line to the console).
\<close>

theorem getTotal_rounded:
  "fst (getTotal s)
     = fmul (dsum (map (\<lambda>p. fmul (to_number (item_price p)) (to_number (item_quantity p)))
                    (cart s)))
         (fsub (Fin 1) (discount s))
   \<and> ((\<forall>p\<in>set (cart s). \<exists>a b. item_price p = Some (Fin a) \<and> item_quantity p = Some (Fin b)
          \<and> a \<in> \<int> \<and> b \<in> \<int> \<and> 0 \<le> a \<and> 0 \<le> b)
        \<and> exact_subtotal (cart s) \<le> 2 ^ 53 \<and> discount s = Fin 0 \<longrightarrow>
        fst (getTotal s) = Fin (exact_subtotal (cart s) * (1 - the_real (discount s))))
   \<and> (cart s = [] \<and> discount s = Fin d \<and> \<bar>d\<bar> \<le> 2 ^ 1024 - 2 ^ 971 \<longrightarrow>
        fst (getTotal s) = Fin 0)
   \<and> cart (snd (getTotal s)) = cart s
   \<and> discount (snd (getTotal s)) = discount s"
proof (intro conjI impI)
  show "fst (getTotal s)
     = fmul (dsum (map (\<lambda>p. fmul (to_number (item_price p)) (to_number (item_quantity p)))
                    (cart s)))
         (fsub (Fin 1) (discount s))"
    by (simp add: getTotal_def Let_def total_fold_eq_dsum)
next
  assume h: "(\<forall>p\<in>set (cart s). \<exists>a b. item_price p = Some (Fin a) \<and> item_quantity p = Some (Fin b)
          \<and> a \<in> \<int> \<and> b \<in> \<int> \<and> 0 \<le> a \<and> 0 \<le> b)
        \<and> exact_subtotal (cart s) \<le> 2 ^ 53 \<and> discount s = Fin 0"
  then have ip: "int_priced (cart s)" and le: "exact_subtotal (cart s) \<le> 2 ^ 53"
    and d0: "discount s = Fin 0"
    by (simp_all add: int_priced_def)
  have "foldl (\<lambda>acc p. fadd acc (fmul (to_number (item_price p)) (to_number (item_quantity p))))
        (Fin 0) (cart s) = Fin (0 + exact_subtotal (cart s))"
    using ip le by (intro total_fold_exact) simp_all
  then have "fst (getTotal s) = fmul (Fin (exact_subtotal (cart s))) (fsub (Fin 1) (Fin 0))"
    by (simp add: getTotal_def Let_def d0 del: fmul.simps)
  also have "\<dots> = Fin (exact_subtotal (cart s))"
    using exact_subtotal_Ints [OF ip] exact_subtotal_nonneg [OF ip] le by (rule fmul_one_exact)
  finally show "fst (getTotal s) = Fin (exact_subtotal (cart s) * (1 - the_real (discount s)))"
    by (simp add: d0)
next
  assume h: "cart s = [] \<and> discount s = Fin d \<and> \<bar>d\<bar> \<le> 2 ^ 1024 - 2 ^ 971"
  then obtain y where "fsub (Fin 1) (Fin d) = Fin y" using one_minus_finite by blast
  then show "fst (getTotal s) = Fin 0"
    using h by (simp add: getTotal_def Let_def fmul_zero_finite del: fmul.simps)
next
  show "cart (snd (getTotal s)) = cart s" by (simp add: getTotal_def Let_def)
next
  show "discount (snd (getTotal s)) = discount s" by (simp add: getTotal_def Let_def)
qed

theorem getTotal_rounded_witness:
  "fst (getTotal (promo_state hundred)) = Fin 90
   \<and> fst (getTotal \<lparr>cart = [plain_item tshirt, plain_item item2], discount = Fin 0,
        console = []\<rparr>) = Fin 85
   \<and> fst (getTotal \<lparr>cart = [], discount = rnd (1 / 10), console = []\<rparr>) = Fin 0
   \<and> cart (snd (getTotal (promo_state hundred))) = [plain_item hundred]
   \<and> discount (snd (getTotal (promo_state hundred))) = rnd (1 / 10)"
proof -
  let ?s = "\<lparr>cart = [plain_item tshirt, plain_item item2], discount = Fin 0, console = []\<rparr>"
  let ?e = "\<lparr>cart = [], discount = rnd (1 / 10), console = []\<rparr>"
  note h = getTotal_rounded [of "promo_state hundred" 0]
  have a: "fst (getTotal (promo_state hundred)) = Fin 90"
    using h
    by (simp add: promo_state_def plain_item_def dsum_single subtotal_100 discounted_100
        del: fadd.simps fmul.simps)
  have pre: "(\<forall>p\<in>set (cart ?s). \<exists>a b. item_price p = Some (Fin a) \<and> item_quantity p = Some (Fin b)
          \<and> a \<in> \<int> \<and> b \<in> \<int> \<and> 0 \<le> a \<and> 0 \<le> b)
        \<and> exact_subtotal (cart ?s) \<le> 2 ^ 53 \<and> discount ?s = Fin 0"
    by (simp add: plain_item_def tshirt_def item2_def exact_subtotal_def)
  have "fst (getTotal ?s) = Fin (exact_subtotal (cart ?s) * (1 - the_real (discount ?s)))"
    using getTotal_rounded [of ?s 0] pre by blast
  then have b: "fst (getTotal ?s) = Fin 85"
    by (simp add: plain_item_def tshirt_def item2_def exact_subtotal_def)
  have pre_e: "cart ?e = [] \<and> discount ?e = Fin (3602879701896397 / 2 ^ 55)
      \<and> \<bar>3602879701896397 / 2 ^ 55 :: real\<bar> \<le> 2 ^ 1024 - 2 ^ 971"
    by (simp add: rnd_tenth)
  have c: "fst (getTotal ?e) = Fin 0"
    using getTotal_rounded [of ?e "3602879701896397 / 2 ^ 55"] pre_e by blast
  have d: "cart (snd (getTotal (promo_state hundred))) = [plain_item hundred]"
    "discount (snd (getTotal (promo_state hundred))) = rnd (1 / 10)"
    using h by (simp_all add: promo_state_def del: fadd.simps fmul.simps)
  show ?thesis using a b c d by (intro conjI)
qed

text \<open>
  C1 does not hold with exact arithmetic in place of the rounded one: with one item of
  price 13 and quantity 1 and the discount of \<^verbatim>\<open>PROMO10\<close>, the code returns
  \<open>6586514455029351 / 2 ^ 49\<close> (printed 11.700000000000001), which is neither the exact
  product of 13 and one minus the stored discount nor 11.7. And among all states, one
  whose discount is infinite (no sequence of calls reaches it) has total NaN on an
  empty cart.
\<close>

theorem getTotal_exact_counterexample:
  "fst (getTotal (promo_state thirteen)) = Fin (6586514455029351 / 2 ^ 49)
   \<and> exact_subtotal (cart (promo_state thirteen))
       * (1 - the_real (discount (promo_state thirteen))) = 421536925121878423 / 2 ^ 55
   \<and> fst (getTotal (promo_state thirteen))
       \<noteq> Fin (exact_subtotal (cart (promo_state thirteen))
               * (1 - the_real (discount (promo_state thirteen))))
   \<and> fst (getTotal (promo_state thirteen)) \<noteq> Fin (13 * 1 * (1 - 1 / 10))
   \<and> fst (getTotal \<lparr>cart = [], discount = PInf, console = []\<rparr>) = NaN"
proof -
  have a: "exact_subtotal (cart (promo_state thirteen))
       * (1 - the_real (discount (promo_state thirteen))) = 421536925121878423 / 2 ^ 55"
    by (simp add: promo_state_def plain_item_def thirteen_def exact_subtotal_def rnd_tenth)
  have b: "fst (getTotal \<lparr>cart = [], discount = PInf, console = []\<rparr>) = NaN"
    by (simp add: getTotal_def fsub_def)
  have c: "(6586514455029351 / 2 ^ 49 :: real) \<noteq> 421536925121878423 / 2 ^ 55"
    "(6586514455029351 / 2 ^ 49 :: real) \<noteq> 13 * 1 * (1 - 1 / 10)"
    by simp_all
  show ?thesis
    unfolding a getTotal_promo_thirteen using b c by simp
qed

subsection \<open>C2: rejected candidates\<close>

text \<open>
  C2. A candidate whose id or name is not a string, whose price is not a number that is
  at least 0 (NaN included), or whose quantity is not a positive integer makes
  \<^verbatim>\<open>addProduct\<close> throw the schema's error, under either version of the schema library,
  and the state after the throw is the state before the call: the parse is the first
  statement, so nothing is written before it.
\<close>

theorem addProduct_invalid_rejected:
  assumes "(\<nexists>i. raw_id r = JString i) \<or> (\<nexists>n. raw_name r = JString n)
           \<or> (\<nexists>p. raw_price r = JNumber p \<and> (p = PInf \<or> (\<exists>x. p = Fin x \<and> 0 \<le> x)))
           \<or> (\<nexists>q. raw_quantity r = JNumber (Fin q) \<and> q \<in> \<int> \<and> 0 < q)"
  shows "addProduct zv r s = (Some ZodError, s)"
proof -
  have "ProductSchema_parse zv r \<noteq> Inr v" for v
  proof
    assume ok: "ProductSchema_parse zv r = Inr v"
    then have i: "raw_id r = JString (id_p v)" and n: "raw_name r = JString (name v)"
      and p: "raw_price r = JNumber (price v)" "nonnegative (price v)"
      and q: "raw_quantity r = JNumber (quantity v)"
      by (simp_all add: parse_Inr_iff)
    have "price v = PInf \<or> (\<exists>x. price v = Fin x \<and> 0 \<le> x)"
      using p(2) by (cases "price v") simp_all
    moreover obtain x where "quantity v = Fin x" "x \<in> \<int>" "1 \<le> x"
      using parse_quantity [OF ok] by blast
    ultimately show False using assms i n p(1) q by force
  qed
  then have "ProductSchema_parse zv r = Inl ZodError"
    using parse_cases [of zv r] by blast
  then show ?thesis by (rule addProduct_invalid)
qed

theorem addProduct_invalid_rejected_witness:
  "addProduct Zod3 bad_product example_state = (Some ZodError, example_state)
   \<and> addProduct Zod4 bad_product example_state = (Some ZodError, example_state)
   \<and> addProduct Zod3 ((raw_of tshirt)\<lparr>raw_id := JNumber (Fin 1)\<rparr>) example_state
       = (Some ZodError, example_state)
   \<and> addProduct Zod3 ((raw_of tshirt)\<lparr>raw_name := JOther\<rparr>) example_state
       = (Some ZodError, example_state)
   \<and> addProduct Zod3 ((raw_of tshirt)\<lparr>raw_price := JNumber NaN\<rparr>) example_state
       = (Some ZodError, example_state)
   \<and> addProduct Zod3 ((raw_of tshirt)\<lparr>raw_quantity := JNumber (Fin (3 / 2))\<rparr>) example_state
       = (Some ZodError, example_state)"
proof -
  have h1: "(\<nexists>i. raw_id bad_product = JString i) \<or> (\<nexists>n. raw_name bad_product = JString n)
       \<or> (\<nexists>p. raw_price bad_product = JNumber p \<and> (p = PInf \<or> (\<exists>x. p = Fin x \<and> 0 \<le> x)))
       \<or> (\<nexists>q. raw_quantity bad_product = JNumber (Fin q) \<and> q \<in> \<int> \<and> 0 < q)"
    by (simp add: bad_product_def)
  have h2: "\<nexists>i. raw_id ((raw_of tshirt)\<lparr>raw_id := JNumber (Fin 1)\<rparr>) = JString i"
    by simp
  have h3: "\<nexists>n. raw_name ((raw_of tshirt)\<lparr>raw_name := JOther\<rparr>) = JString n"
    by simp
  have h4: "\<nexists>p. raw_price ((raw_of tshirt)\<lparr>raw_price := JNumber NaN\<rparr>) = JNumber p
      \<and> (p = PInf \<or> (\<exists>x. p = Fin x \<and> 0 \<le> x))"
    by simp
  have half: "(3 / 2 :: real) \<notin> \<int>"
    by (simp add: isInteger_Fin [symmetric])
  have h5: "\<nexists>q. raw_quantity ((raw_of tshirt)\<lparr>raw_quantity := JNumber (Fin (3 / 2))\<rparr>)
      = JNumber (Fin q) \<and> q \<in> \<int> \<and> 0 < q"
  proof
    assume "\<exists>q. raw_quantity ((raw_of tshirt)\<lparr>raw_quantity := JNumber (Fin (3 / 2))\<rparr>)
      = JNumber (Fin q) \<and> q \<in> \<int> \<and> 0 < q"
    then obtain q :: real where "JNumber (Fin (3 / 2)) = JNumber (Fin q)" and "q \<in> \<int>"
      by auto
    then have "(3 / 2 :: real) \<in> \<int>"
      by (simp only: jsval.inject double.inject)
    with half show False by contradiction
  qed
  show ?thesis
    using addProduct_invalid_rejected [of bad_product Zod3 example_state, OF h1]
      addProduct_invalid_rejected [of bad_product Zod4 example_state, OF h1]
      addProduct_invalid_rejected
        [of "(raw_of tshirt)\<lparr>raw_id := JNumber (Fin 1)\<rparr>" Zod3 example_state]
      addProduct_invalid_rejected [of "(raw_of tshirt)\<lparr>raw_name := JOther\<rparr>" Zod3 example_state]
      addProduct_invalid_rejected
        [of "(raw_of tshirt)\<lparr>raw_price := JNumber NaN\<rparr>" Zod3 example_state]
      addProduct_invalid_rejected
        [of "(raw_of tshirt)\<lparr>raw_quantity := JNumber (Fin (3 / 2))\<rparr>" Zod3 example_state]
      h2 h3 h4 h5
    by blast
qed

subsection \<open>C3: promo codes\<close>

text \<open>
  C3. Whatever the state, \<^verbatim>\<open>applyDiscount "PROMO10"\<close> returns with the discount set to
  the double 0.1 and nothing else changed: the previous discount is overwritten, never
  multiplied or added to. Every other code throws \<^verbatim>\<open>Error("Code promo invalide")\<close> and
  leaves the whole state as it was.
\<close>

theorem applyDiscount_code:
  "(code = ''PROMO10'' \<longrightarrow> applyDiscount code s = (None, s\<lparr>discount := rnd (1 / 10)\<rparr>))
   \<and> (code \<noteq> ''PROMO10'' \<longrightarrow>
        applyDiscount code s = (Some (Error ''Code promo invalide''), s))"
  by (simp add: applyDiscount_def)

theorem applyDiscount_code_witness:
  "applyDiscount ''PROMO10'' example_state = (None, example_state)
   \<and> applyDiscount ''PROMO10'' init
       = (None, \<lparr>cart = [], discount = rnd (1 / 10), console = []\<rparr>)
   \<and> applyDiscount ''INVALIDE'' example_state
       = (Some (Error ''Code promo invalide''), example_state)"
proof -
  have a: "applyDiscount ''PROMO10'' example_state
      = (None, example_state\<lparr>discount := rnd (1 / 10)\<rparr>)"
    using applyDiscount_code [of "''PROMO10''" example_state] by blast
  have b: "applyDiscount ''PROMO10'' init = (None, init\<lparr>discount := rnd (1 / 10)\<rparr>)"
    using applyDiscount_code [of "''PROMO10''" init] by blast
  have "''INVALIDE'' \<noteq> ''PROMO10''" by simp
  then have c: "applyDiscount ''INVALIDE'' example_state
       = (Some (Error ''Code promo invalide''), example_state)"
    using applyDiscount_code [of "''INVALIDE''" example_state] by blast
  show ?thesis
    using a b c by (simp add: example_state_def init_def)
qed

subsection \<open>C4: merging and appending\<close>




subsection \<open>C5: the count\<close>




subsection \<open>C6: one entry per id, positive quantities\<close>




subsection \<open>C7: removal\<close>

text \<open>
  C7. \<^verbatim>\<open>removeProduct\<close> never throws and keeps exactly the stored items whose id differs
  from its argument, in their order, so no stored item has that id afterwards and the
  discount is untouched. When one item has the id, the state after the call is the state
  before with that item taken out. When no item has the id, the state is unchanged, and
  so are the count and the total. Removing the same id twice gives the same result as
  removing it once.
\<close>

theorem removeProduct_removes:
  "fst (removeProduct i s) = None
   \<and> cart (snd (removeProduct i s)) = filter (\<lambda>p. item_id p \<noteq> Some i) (cart s)
   \<and> Some i \<notin> item_id ` set (cart (snd (removeProduct i s)))
   \<and> discount (snd (removeProduct i s)) = discount s
   \<and> (\<forall>xs x ys. cart s = xs @ x # ys \<and> item_id x = Some i
         \<and> Some i \<notin> item_id ` set (xs @ ys) \<longrightarrow>
        snd (removeProduct i s) = s\<lparr>cart := xs @ ys\<rparr>)
   \<and> (Some i \<notin> item_id ` set (cart s) \<longrightarrow>
        snd (removeProduct i s) = s
        \<and> fst (getProductCount (snd (removeProduct i s))) = fst (getProductCount s)
        \<and> fst (getTotal (snd (removeProduct i s))) = fst (getTotal s))
   \<and> removeProduct i (snd (removeProduct i s)) = removeProduct i s"
proof -
  have keep: "filter (\<lambda>p. item_id p \<noteq> Some i) zs = zs" if "Some i \<notin> item_id ` set zs" for zs
    using that by (induction zs) auto
  have one: "snd (removeProduct i s) = s\<lparr>cart := xs @ ys\<rparr>"
    if "cart s = xs @ x # ys" "item_id x = Some i" "Some i \<notin> item_id ` set (xs @ ys)"
    for xs x ys
  proof -
    have "Some i \<notin> item_id ` set xs" and "Some i \<notin> item_id ` set ys"
      using that(3) by auto
    then show ?thesis
      using that(1,2) by (simp add: removeProduct_def keep)
  qed
  have miss: "snd (removeProduct i s) = s" if "Some i \<notin> item_id ` set (cart s)"
    using that by (simp add: removeProduct_def keep)
  have gone: "Some i \<notin> item_id ` set (cart (snd (removeProduct i s)))"
    by (auto simp: removeProduct_def)
  have idem: "removeProduct i (snd (removeProduct i s)) = removeProduct i s"
    by (simp add: removeProduct_def)
  have basic: "fst (removeProduct i s) = None"
    "cart (snd (removeProduct i s)) = filter (\<lambda>p. item_id p \<noteq> Some i) (cart s)"
    "discount (snd (removeProduct i s)) = discount s"
    by (simp_all add: removeProduct_def)
  show ?thesis
    using one miss gone idem basic by simp
qed

theorem removeProduct_removes_witness:
  "snd (removeProduct ''1'' example_state) = example_state\<lparr>cart := [plain_item item2]\<rparr>
   \<and> snd (removeProduct ''not-found'' example_state) = example_state
   \<and> fst (getProductCount (snd (removeProduct ''not-found'' example_state)))
       = fst (getProductCount example_state)
   \<and> fst (getTotal (snd (removeProduct ''not-found'' example_state)))
       = fst (getTotal example_state)
   \<and> removeProduct ''1'' (snd (removeProduct ''1'' example_state))
       = removeProduct ''1'' example_state"
proof -
  note t1 = removeProduct_removes [of "''1''" example_state]
  note t2 = removeProduct_removes [of "''not-found''" example_state]
  have h1: "cart example_state = [] @ plain_item tshirt # [plain_item item2]
      \<and> item_id (plain_item tshirt) = Some ''1''
      \<and> Some ''1'' \<notin> item_id ` set ([] @ [plain_item item2])"
    by (simp add: example_state_def plain_item_def tshirt_def item2_def)
  have h2: "Some ''not-found'' \<notin> item_id ` set (cart example_state)"
    by (simp add: example_state_def plain_item_def tshirt_def item2_def)
  have a: "snd (removeProduct ''1'' example_state)
      = example_state\<lparr>cart := [] @ [plain_item item2]\<rparr>"
    using t1 h1 by blast
  have b: "snd (removeProduct ''not-found'' example_state) = example_state
        \<and> fst (getProductCount (snd (removeProduct ''not-found'' example_state)))
            = fst (getProductCount example_state)
        \<and> fst (getTotal (snd (removeProduct ''not-found'' example_state)))
            = fst (getTotal example_state)"
    using t2 h2 by blast
  have c: "removeProduct ''1'' (snd (removeProduct ''1'' example_state))
       = removeProduct ''1'' example_state"
    using t1 by blast
  show ?thesis
    using a b c by simp
qed

subsection \<open>C8: reset\<close>

text \<open>
  C8. In every state \<^verbatim>\<open>resetCart\<close> returns without throwing, and afterwards the cart is
  empty and the discount is 0, so that \<^verbatim>\<open>getProductCount\<close> and \<^verbatim>\<open>getTotal\<close> called
  next both return 0.
\<close>

theorem resetCart_defaults:
  "fst (resetCart s) = None
   \<and> cart (snd (resetCart s)) = []
   \<and> discount (snd (resetCart s)) = Fin 0
   \<and> fst (getProductCount (snd (resetCart s))) = Fin 0
   \<and> fst (getTotal (snd (resetCart s))) = Fin 0"
proof -
  have "fmul (Fin 0) (fsub (Fin 1) (Fin 0)) = Fin 0"
    by (rule fmul_one_exact) simp_all
  then show ?thesis
    by (simp add: resetCart_def getProductCount_def getTotal_def Let_def del: fmul.simps)
qed

theorem resetCart_defaults_witness:
  "fst (resetCart example_state) = None
   \<and> snd (resetCart example_state) = init
   \<and> fst (getProductCount (snd (resetCart example_state))) = Fin 0
   \<and> fst (getTotal (snd (resetCart example_state))) = Fin 0"
proof -
  note t = resetCart_defaults [of example_state]
  have "console (snd (resetCart example_state)) = []"
    by (simp add: resetCart_def example_state_def)
  then have "snd (resetCart example_state) = init"
    using t by (simp add: init_def)
  then show ?thesis
    using t by simp
qed

subsection \<open>C9: the values of the discount\<close>

text \<open>
  C9. After any sequence of calls from the initial state the discount is exactly 0 or
  exactly the double 0.1. It is 0 initially; a single call changes it only as follows:
  \<^verbatim>\<open>applyDiscount "PROMO10"\<close> sets it to 0.1, \<^verbatim>\<open>resetCart\<close> sets it to 0, and every other
  call (a rejected code included) leaves it as it was.
\<close>

theorem reachable_discount:
  "(discount (run zv cs init) = Fin 0 \<or> discount (run zv cs init) = rnd (1 / 10))
   \<and> discount init = Fin 0
   \<and> discount (step zv s c) =
       (case c of
          ApplyDiscount code \<Rightarrow> if code = ''PROMO10'' then rnd (1 / 10) else discount s
        | ResetCart \<Rightarrow> Fin 0
        | _ \<Rightarrow> discount s)"
proof -
  have i: "discount init = Fin 0"
    by (simp add: init_def)
  then have "discount (run zv cs init) = Fin 0 \<or> discount (run zv cs init) = rnd (1 / 10)"
    unfolding run_def by (intro discount_foldl) simp
  then show ?thesis
    using i discount_step [of zv s c] by simp
qed

theorem reachable_discount_witness:
  "discount (run Zod4 example_calls init) = rnd (1 / 10)
   \<and> discount (run Zod4 (example_calls @ [ResetCart]) init) = Fin 0
   \<and> discount (step Zod4 example_state (ApplyDiscount ''INVALIDE'')) = rnd (1 / 10)
   \<and> discount (step Zod4 init (ApplyDiscount ''PROMO10'')) = rnd (1 / 10)
   \<and> discount (step Zod4 example_state (AddProduct (raw_of tshirt))) = rnd (1 / 10)"
proof -
  have a: "discount (run Zod4 example_calls init) = rnd (1 / 10)"
    using reachable_discount [of Zod4 example_calls init ResetCart]
    by (simp add: run_example_calls)
  have b: "discount (run Zod4 (example_calls @ [ResetCart]) init) = Fin 0"
    using reachable_discount
      [of Zod4 "example_calls @ [ResetCart]" "run Zod4 example_calls init" ResetCart]
    by (simp add: run_def)
  have c: "discount (step Zod4 example_state (ApplyDiscount ''INVALIDE'')) = rnd (1 / 10)"
    using reachable_discount [of Zod4 "[]" example_state "ApplyDiscount ''INVALIDE''"]
    by (simp add: example_state_def)
  have d: "discount (step Zod4 init (ApplyDiscount ''PROMO10'')) = rnd (1 / 10)"
    using reachable_discount [of Zod4 "[]" init "ApplyDiscount ''PROMO10''"]
    by simp
  have e: "discount (step Zod4 example_state (AddProduct (raw_of tshirt))) = rnd (1 / 10)"
    using reachable_discount [of Zod4 "[]" example_state "AddProduct (raw_of tshirt)"]
    by (simp add: example_state_def)
  show ?thesis
    using a b c d e by blast
qed

subsection \<open>C10: the discount does not touch the items\<close>

text \<open>
  C10. Whether it returns or throws, \<^verbatim>\<open>applyDiscount\<close> leaves the stored items exactly
  as they were, and therefore the value of \<^verbatim>\<open>getProductCount\<close> too.
\<close>

theorem applyDiscount_keeps_items:
  "cart (snd (applyDiscount code s)) = cart s
   \<and> fst (getProductCount (snd (applyDiscount code s))) = fst (getProductCount s)"
  by (simp add: applyDiscount_def getProductCount_def)

theorem applyDiscount_keeps_items_witness:
  "cart (snd (applyDiscount ''PROMO10'' example_state)) = [plain_item tshirt, plain_item item2]
   \<and> cart (snd (applyDiscount ''INVALIDE'' example_state))
       = [plain_item tshirt, plain_item item2]
   \<and> fst (getProductCount (snd (applyDiscount ''PROMO10'' example_state)))
       = fst (getProductCount example_state)"
  using applyDiscount_keeps_items [of "''PROMO10''" example_state]
    applyDiscount_keeps_items [of "''INVALIDE''" example_state]
  by (simp add: example_state_def)

end
